theory Spec2Isabelle
  imports Complex_Main "HOL-Library.Word"
begin

section \<open>Data model (models)\<close>

text \<open>
  The Go structs of package \<open>models\<close> as records. Conventions of the embedding:
  \<^item> \<open>float64\<close> amounts are exact rationals: rounding, infinities and NaN are not
    modelled, every comparison and every sum is the mathematical one;
  \<^item> \<open>time.Time\<close> is an instant counted in nanoseconds from Go's zero time, so the
    zero value of the type is \<open>0\<close>;
  \<^item> Go's \<open>int\<close> is a 64-bit word, \<open>OverdraftCount++\<close> wraps;
  \<^item> the fields \<open>ID\<close> of Transaction and \<open>AccountID\<close>, \<open>Timestamp\<close>, \<open>Type\<close>,
    \<open>Description\<close> of Anomaly are prefixed, since record fields share one name space.
\<close>

record Account =
  ID :: string
  Balance :: rat
  DailyDebits :: rat
  DailyCredits :: rat
  LastTransactionTime :: int
  OverdraftCount :: "64 word"

record Transaction =
  TxID :: string
  AccountID :: string
  DestinationAccountID :: string
  Timestamp :: int
  Amount :: rat
  Type :: string
  Status :: string
  Description :: string
  ValidationMessage :: string
  ProcessingMessage :: string

record Anomaly =
  TransactionID :: string
  AnomalyAccountID :: string
  AnomalyTimestamp :: int
  AnomalyType :: string
  AnomalyDescription :: string
  Severity :: string

text \<open>The zero value of \<open>models.Account\<close>, which a Go map read returns for a missing key.\<close>

definition zeroAccount :: Account where
  "zeroAccount = \<lparr>ID = [], Balance = 0, DailyDebits = 0, DailyCredits = 0,
     LastTransactionTime = 0, OverdraftCount = 0\<rparr>"

section \<open>Go maps as objects in a store\<close>

text \<open>
  A Go map value is a reference to a shared object: a callee that writes
  \<open>accounts[k] = v\<close> changes the map its caller holds. The store keeps the contents of
  every map object under its reference; \<open>nxt\<close> is the next reference \<open>make\<close> hands out.
\<close>

type_synonym accounts = "string \<rightharpoonup> Account"

type_synonym mapref = nat

record store =
  cells :: "mapref \<Rightarrow> accounts"
  nxt :: mapref

definition make_map :: "store \<Rightarrow> mapref \<times> store" where
  "make_map s = (nxt s, s\<lparr>cells := (cells s)(nxt s := Map.empty), nxt := Suc (nxt s)\<rparr>)"

definition lookup :: "accounts \<Rightarrow> string \<Rightarrow> Account" where
  "lookup m k = (case m k of None \<Rightarrow> zeroAccount | Some a \<Rightarrow> a)"

definition map_get :: "store \<Rightarrow> mapref \<Rightarrow> string \<Rightarrow> Account" where
  "map_get s r k = lookup (cells s r) k"

definition map_put :: "store \<Rightarrow> mapref \<Rightarrow> string \<Rightarrow> Account \<Rightarrow> store" where
  "map_put s r k a = s\<lparr>cells := (cells s)(r := (cells s r)(k \<mapsto> a))\<rparr>"

section \<open>Formatting (fmt.Sprintf)\<close>

text \<open>
  The verbs the program uses: \<open>%d\<close> on an int and \<open>%.2f\<close> on an amount (two decimals,
  rounded to nearest, ties to even, the sign printed for every negative amount).
\<close>

definition digit :: "nat \<Rightarrow> char" where
  "digit n = ''0123456789'' ! n"

fun nat_dec :: "nat \<Rightarrow> string" where
  "nat_dec n = (if n < 10 then [digit n] else nat_dec (n div 10) @ [digit (n mod 10)])"

declare nat_dec.simps [simp del]

definition Sprintf_d :: "int \<Rightarrow> string" where
  "Sprintf_d i = (if i < 0 then CHR ''-'' # nat_dec (nat (- i)) else nat_dec (nat i))"

definition round_half_even :: "rat \<Rightarrow> int" where
  "round_half_even x =
     (let f = \<lfloor>x\<rfloor>; r = x - of_int f
      in if r < 1 / 2 then f else if 1 / 2 < r then f + 1 else if even f then f else f + 1)"

definition Sprintf_2f :: "rat \<Rightarrow> string" where
  "Sprintf_2f x =
     (let c = nat (round_half_even (\<bar>x\<bar> * 100))
      in (if x < 0 then ''-'' else []) @ nat_dec (c div 100) @ ''.''
           @ [digit (c div 10 mod 10), digit (c mod 10)])"

section \<open>Ledger engine (processor/apply_transactions.go)\<close>

definition OverdraftLimit :: rat where
  "OverdraftLimit = - 1000"

definition MaxDailyWithdrawalLimit :: rat where
  "MaxDailyWithdrawalLimit = 5000"

text \<open>
  The three handlers take the reference of the map they write to, and return it with
  the stamped transaction, as the Go functions return their \<open>accounts\<close> argument.
\<close>

definition processCredit ::
  "Transaction \<Rightarrow> Account \<Rightarrow> mapref \<Rightarrow> store \<Rightarrow> Transaction \<times> mapref \<times> store" where
  "processCredit transaction account accounts s =
     (let account = account\<lparr>Balance := Balance account + Amount transaction\<rparr>;
          account = account\<lparr>DailyCredits := DailyCredits account + Amount transaction\<rparr>;
          s = map_put s accounts (AccountID transaction) account
      in (transaction\<lparr>Status := ''completed''\<rparr>, accounts, s))"

definition processDebit ::
  "Transaction \<Rightarrow> Account \<Rightarrow> mapref \<Rightarrow> store \<Rightarrow> Transaction \<times> mapref \<times> store" where
  "processDebit transaction account accounts s =
     (if DailyDebits account + Amount transaction > MaxDailyWithdrawalLimit then
        (transaction\<lparr>Status := ''rejected'',
           ProcessingMessage :=
             ''Exceeds daily withdrawal limit of $'' @ Sprintf_2f MaxDailyWithdrawalLimit\<rparr>,
         accounts, s)
      else
        let newBalance = Balance account - Amount transaction
        in if newBalance < OverdraftLimit then
             (transaction\<lparr>Status := ''rejected'',
                ProcessingMessage :=
                  ''Would exceed overdraft limit of $'' @ Sprintf_2f (- OverdraftLimit)\<rparr>,
              accounts, s)
           else
             let account = account\<lparr>Balance := newBalance\<rparr>;
                 account = account\<lparr>DailyDebits := DailyDebits account + Amount transaction\<rparr>;
                 (account, transaction) =
                   (if newBalance < 0 then
                      (account\<lparr>OverdraftCount := OverdraftCount account + 1\<rparr>,
                       transaction\<lparr>ProcessingMessage := ''Account in overdraft''\<rparr>)
                    else (account, transaction));
                 s = map_put s accounts (AccountID transaction) account
             in (transaction\<lparr>Status := ''completed''\<rparr>, accounts, s))"

definition processTransfer ::
  "Transaction \<Rightarrow> mapref \<Rightarrow> store \<Rightarrow> Transaction \<times> mapref \<times> store" where
  "processTransfer transaction accounts s =
     (let sourceAccount = map_get s accounts (AccountID transaction);
          destAccount = map_get s accounts (DestinationAccountID transaction);
          newBalance = Balance sourceAccount - Amount transaction
      in if newBalance < OverdraftLimit then
           (transaction\<lparr>Status := ''rejected'',
              ProcessingMessage :=
                ''Would exceed overdraft limit of $'' @ Sprintf_2f (- OverdraftLimit)\<rparr>,
            accounts, s)
         else
           let sourceAccount = sourceAccount\<lparr>Balance := newBalance\<rparr>;
               sourceAccount =
                 sourceAccount\<lparr>DailyDebits := DailyDebits sourceAccount + Amount transaction\<rparr>;
               destAccount = destAccount\<lparr>Balance := Balance destAccount + Amount transaction\<rparr>;
               destAccount =
                 destAccount\<lparr>DailyCredits := DailyCredits destAccount + Amount transaction\<rparr>;
               (sourceAccount, transaction) =
                 (if newBalance < 0 then
                    (sourceAccount\<lparr>OverdraftCount := OverdraftCount sourceAccount + 1\<rparr>,
                     transaction\<lparr>ProcessingMessage := ''Source account in overdraft''\<rparr>)
                  else (sourceAccount, transaction));
               s = map_put s accounts (AccountID transaction) sourceAccount;
               s = map_put s accounts (DestinationAccountID transaction) destAccount
           in (transaction\<lparr>Status := ''completed''\<rparr>, accounts, s))"

text \<open>
  One iteration of the loop of \<open>ProcessTransactions\<close>: the dispatch on the type (an
  unknown type leaves the copy of the transaction as it is), then the update of the
  last transaction time when the stamped transaction is completed.
\<close>

definition applyTransaction ::
  "Transaction \<Rightarrow> mapref \<Rightarrow> store \<Rightarrow> Transaction \<times> mapref \<times> store" where
  "applyTransaction transaction processedAccounts s =
     (let account = map_get s processedAccounts (AccountID transaction);
          (processed, processedAccounts, s) =
            (if Type transaction = ''credit'' then
               processCredit transaction account processedAccounts s
             else if Type transaction = ''debit'' then
               processDebit transaction account processedAccounts s
             else if Type transaction = ''transfer'' then
               processTransfer transaction processedAccounts s
             else (transaction, processedAccounts, s))
      in if Status processed = ''completed'' then
           let account = map_get s processedAccounts (AccountID transaction);
               account = account\<lparr>LastTransactionTime := Timestamp transaction\<rparr>
           in (processed, processedAccounts,
               map_put s processedAccounts (AccountID transaction) account)
         else (processed, processedAccounts, s))"

fun processLoop ::
  "Transaction list \<Rightarrow> mapref \<Rightarrow> store \<Rightarrow> Transaction list \<times> mapref \<times> store" where
  "processLoop [] processedAccounts s = ([], processedAccounts, s)"
| "processLoop (transaction # rest) processedAccounts s =
     (case applyTransaction transaction processedAccounts s of
        (processed, processedAccounts, s) \<Rightarrow>
          (case processLoop rest processedAccounts s of
             (processedRest, processedAccounts, s) \<Rightarrow>
               (processed # processedRest, processedAccounts, s)))"

text \<open>
  \<open>ProcessTransactions\<close> makes a new map, puts every entry of the caller's map into it
  (the range loop, whose order does not matter: the keys are distinct) and runs the
  loop on the new map. The slice of transactions is copied, so the list is a value.
\<close>

definition ProcessTransactions ::
  "Transaction list \<Rightarrow> mapref \<Rightarrow> store \<Rightarrow> (mapref \<times> Transaction list) \<times> store" where
  "ProcessTransactions transactions accounts s =
     (case make_map s of
        (processedAccounts, s) \<Rightarrow>
          let s = s\<lparr>cells := (cells s)(processedAccounts :=
                     cells s processedAccounts ++ cells s accounts)\<rparr>
          in (case processLoop transactions processedAccounts s of
                (processedTransactions, processedAccounts, s) \<Rightarrow>
                  ((processedAccounts, processedTransactions), s)))"

section \<open>The run, one transaction at a time\<close>

text \<open>
  Names for what the run of \<open>ProcessTransactions\<close> goes through: the store once the
  new map holds the copy, the store and an account when the first n transactions have
  been applied (the run of the first n transactions: the loop is sequential), the
  stamped transaction at an index, and the entries of the map returned.
\<close>

definition copied :: "mapref \<Rightarrow> store \<Rightarrow> store" where
  "copied accounts s =
     (case make_map s of
        (processedAccounts, s) \<Rightarrow>
          s\<lparr>cells := (cells s)(processedAccounts :=
                cells s processedAccounts ++ cells s accounts)\<rparr>)"

definition storeAt :: "nat \<Rightarrow> Transaction list \<Rightarrow> mapref \<Rightarrow> store \<Rightarrow> store" where
  "storeAt n transactions accounts s = snd (ProcessTransactions (take n transactions) accounts s)"

definition accountAt ::
  "nat \<Rightarrow> Transaction list \<Rightarrow> mapref \<Rightarrow> store \<Rightarrow> string \<Rightarrow> Account" where
  "accountAt n transactions accounts s k =
     (case ProcessTransactions (take n transactions) accounts s of
        ((processedAccounts, _), s') \<Rightarrow> map_get s' processedAccounts k)"

definition stamped :: "Transaction list \<Rightarrow> mapref \<Rightarrow> store \<Rightarrow> nat \<Rightarrow> Transaction" where
  "stamped transactions accounts s i = snd (fst (ProcessTransactions transactions accounts s)) ! i"


section \<open>Example inputs\<close>

definition exampleAccount :: "string \<Rightarrow> rat \<Rightarrow> Account" where
  "exampleAccount i b = \<lparr>ID = i, Balance = b, DailyDebits = 0, DailyCredits = 0,
     LastTransactionTime = 0, OverdraftCount = 0\<rparr>"

definition exampleTransaction ::
  "string \<Rightarrow> string \<Rightarrow> string \<Rightarrow> rat \<Rightarrow> string \<Rightarrow> int \<Rightarrow> Transaction" where
  "exampleTransaction i a d amt ty ts = \<lparr>TxID = i, AccountID = a, DestinationAccountID = d,
     Timestamp = ts, Amount = amt, Type = ty, Status = ''pending'', Description = [],
     ValidationMessage = [], ProcessingMessage = []\<rparr>"

text \<open>One map object, at reference 0: A1 with balance 100, A2 with 50, A3 with 10000.\<close>

definition exampleStore :: store where
  "exampleStore = \<lparr>cells = (\<lambda>_. Map.empty)(0 :=
     [''A1'' \<mapsto> exampleAccount ''A1'' 100, ''A2'' \<mapsto> exampleAccount ''A2'' 50,
      ''A3'' \<mapsto> exampleAccount ''A3'' 10000]), nxt = 1\<rparr>"


section \<open>Anomaly detector (detector/anomaly_detector.go)\<close>

definition LargeTransactionThreshold :: rat where
  "LargeTransactionThreshold = 10000"

definition RapidWithdrawalThreshold :: nat where
  "RapidWithdrawalThreshold = 3"

definition RapidWithdrawalTimeWindowMins :: rat where
  "RapidWithdrawalTimeWindowMins = 60"

text \<open>The detector package declares its own constant \<open>OverdraftLimit\<close>, with the same value.\<close>

definition DetectorOverdraftLimit :: rat where
  "DetectorOverdraftLimit = - 1000"

text \<open>
  \<open>time.Time.Sub\<close> gives the difference as a Duration, a count of nanoseconds in 64
  bits, and saturates; \<open>Duration.Minutes\<close> is that count in minutes; the conversion
  \<open>int(...)\<close> of a float truncates toward zero.
\<close>

definition minDuration :: int where
  "minDuration = - (2 ^ 63)"

definition maxDuration :: int where
  "maxDuration = 2 ^ 63 - 1"

definition Sub :: "int \<Rightarrow> int \<Rightarrow> int" where
  "Sub t u =
     (let d = t - u
      in if minDuration \<le> d \<and> d \<le> maxDuration then d
         else if t < u then minDuration else maxDuration)"

definition Minutes :: "int \<Rightarrow> rat" where
  "Minutes d = of_int d / 60000000000"

definition truncate :: "rat \<Rightarrow> int" where
  "truncate x = (if 0 \<le> x then \<lfloor>x\<rfloor> else \<lceil>x\<rceil>)"

type_synonym withdrawals = "string \<rightharpoonup> Transaction list"

text \<open>
  The body of the first loop, on the anomalies found so far and the withdrawals grouped
  so far. The detector only reads the account map, so it takes the entries of the map.
\<close>

definition scanTransaction ::
  "accounts \<Rightarrow> Transaction \<Rightarrow> Anomaly list \<times> withdrawals \<Rightarrow> Anomaly list \<times> withdrawals" where
  "scanTransaction accounts transaction st =
     (case st of
        (anomalies, withdrawalsByAccount) \<Rightarrow>
          if Status transaction \<noteq> ''completed'' then (anomalies, withdrawalsByAccount)
          else
            let anomalies =
                  (if Amount transaction \<ge> LargeTransactionThreshold then
                     anomalies @
                       [\<lparr>TransactionID = TxID transaction,
                         AnomalyAccountID = AccountID transaction,
                         AnomalyTimestamp = Timestamp transaction,
                         AnomalyType = ''large_transaction'',
                         AnomalyDescription =
                           ''Large transaction: $'' @ Sprintf_2f (Amount transaction),
                         Severity = ''medium''\<rparr>]
                   else anomalies);
                withdrawalsByAccount =
                  (if Type transaction = ''debit'' then
                     withdrawalsByAccount(AccountID transaction \<mapsto>
                       (case withdrawalsByAccount (AccountID transaction) of
                          None \<Rightarrow> [] | Some ws \<Rightarrow> ws) @ [transaction])
                   else withdrawalsByAccount);
                account = lookup accounts (AccountID transaction);
                anomalies =
                  (if Balance account < 0 then
                     let severity = ''low'';
                         severity =
                           (if Balance account < DetectorOverdraftLimit / 2 then ''medium''
                            else severity);
                         severity =
                           (if Balance account < DetectorOverdraftLimit * (8 / 10) then ''high''
                            else severity)
                     in anomalies @
                          [\<lparr>TransactionID = TxID transaction,
                            AnomalyAccountID = AccountID transaction,
                            AnomalyTimestamp = Timestamp transaction,
                            AnomalyType = ''account_overdraft'',
                            AnomalyDescription =
                              ''Account in overdraft: $'' @ Sprintf_2f (Balance account),
                            Severity = severity\<rparr>]
                   else anomalies)
            in (anomalies, withdrawalsByAccount))"

fun scanLoop ::
  "accounts \<Rightarrow> Transaction list \<Rightarrow> Anomaly list \<times> withdrawals \<Rightarrow> Anomaly list \<times> withdrawals" where
  "scanLoop accounts [] st = st"
| "scanLoop accounts (transaction # rest) st =
     scanLoop accounts rest (scanTransaction accounts transaction st)"

text \<open>
  The inner loop over the windows of one account, from index i on: the first window
  within the time window gives the one anomaly, and the \<open>break\<close> ends the loop.
\<close>

function rapidScan :: "string \<Rightarrow> Transaction list \<Rightarrow> nat \<Rightarrow> Anomaly list" where
  "rapidScan accountID withdrawals i =
     (if i < length withdrawals then
        let start = i - (RapidWithdrawalThreshold - 1);
            timeWindow = Sub (Timestamp (withdrawals ! i)) (Timestamp (withdrawals ! start))
        in if Minutes timeWindow \<le> RapidWithdrawalTimeWindowMins then
             let totalAmount =
                   foldl (\<lambda>total j. total + Amount (withdrawals ! j)) 0 [start..<Suc i]
             in [\<lparr>TransactionID = TxID (withdrawals ! i),
                  AnomalyAccountID = accountID,
                  AnomalyTimestamp = Timestamp (withdrawals ! i),
                  AnomalyType = ''rapid_withdrawals'',
                  AnomalyDescription =
                    Sprintf_d (int RapidWithdrawalThreshold) @ '' withdrawals totaling $''
                      @ Sprintf_2f totalAmount @ '' in ''
                      @ Sprintf_d (truncate (Minutes timeWindow)) @ '' minutes'',
                  Severity = ''high''\<rparr>]
           else rapidScan accountID withdrawals (Suc i)
      else [])"
  by pat_completeness auto
termination
  by (relation "measure (\<lambda>(accountID, withdrawals, i). length withdrawals - i)") auto

declare rapidScan.simps [simp del]

definition rapidWithdrawals :: "string \<Rightarrow> Transaction list \<Rightarrow> Anomaly list" where
  "rapidWithdrawals accountID withdrawals =
     (if length withdrawals \<ge> RapidWithdrawalThreshold then
        rapidScan accountID withdrawals (RapidWithdrawalThreshold - 1)
      else [])"

text \<open>
  Go visits the keys of a map in an order it does not specify: \<open>order\<close> is the order
  in which the second loop visits the keys of \<open>withdrawalsByAccount\<close> (the map
  that the first loop leaves, \<open>groupedWithdrawals\<close>), an enumeration of its keys
  without repetition (\<open>rangeOrder\<close>).
\<close>

definition groupedWithdrawals :: "Transaction list \<Rightarrow> accounts \<Rightarrow> withdrawals" where
  "groupedWithdrawals transactions accounts =
     snd (scanLoop accounts transactions ([], Map.empty))"


definition DetectAnomalies :: "string list \<Rightarrow> Transaction list \<Rightarrow> accounts \<Rightarrow> Anomaly list" where
  "DetectAnomalies order transactions accounts =
     (case scanLoop accounts transactions ([], Map.empty) of
        (anomalies, withdrawalsByAccount) \<Rightarrow>
          foldl (\<lambda>anomalies accountID.
                   case withdrawalsByAccount accountID of
                     None \<Rightarrow> anomalies
                   | Some withdrawals \<Rightarrow> anomalies @ rapidWithdrawals accountID withdrawals)
            anomalies order)"

section \<open>The detector in the words of the specification\<close>




definition overdraftSeverity :: "rat \<Rightarrow> string" where
  "overdraftSeverity balance =
     (if balance < DetectorOverdraftLimit * (8 / 10) then ''high''
      else if balance < DetectorOverdraftLimit / 2 then ''medium''
      else ''low'')"

definition overdraftAnomaly :: "accounts \<Rightarrow> Transaction \<Rightarrow> Anomaly" where
  "overdraftAnomaly accounts t =
     \<lparr>TransactionID = TxID t, AnomalyAccountID = AccountID t, AnomalyTimestamp = Timestamp t,
      AnomalyType = ''account_overdraft'',
      AnomalyDescription =
        ''Account in overdraft: $'' @ Sprintf_2f (Balance (lookup accounts (AccountID t))),
      Severity = overdraftSeverity (Balance (lookup accounts (AccountID t)))\<rparr>"

definition overdraftAnomalies :: "accounts \<Rightarrow> Transaction list \<Rightarrow> Anomaly list" where
  "overdraftAnomalies accounts transactions =
     map (overdraftAnomaly accounts)
       (filter (\<lambda>t. Status t = ''completed'' \<and> Balance (lookup accounts (AccountID t)) < 0)
          transactions)"


section \<open>Example inputs of the detector\<close>

text \<open>Four completed debits of 100 on account A1, at minutes 0, 3, 6 and 9.\<close>

definition exampleWithdrawal :: "string \<Rightarrow> string \<Rightarrow> int \<Rightarrow> Transaction" where
  "exampleWithdrawal i a minute = \<lparr>TxID = i, AccountID = a, DestinationAccountID = [],
     Timestamp = minute * 60000000000, Amount = 100, Type = ''debit'', Status = ''completed'',
     Description = [], ValidationMessage = [], ProcessingMessage = []\<rparr>"

definition fourWithdrawals :: "Transaction list" where
  "fourWithdrawals = [exampleWithdrawal ''W1'' ''A1'' 0, exampleWithdrawal ''W2'' ''A1'' 3,
     exampleWithdrawal ''W3'' ''A1'' 6, exampleWithdrawal ''W4'' ''A1'' 9]"

section \<open>The handlers in closed form\<close>

text \<open>The two messages that format a constant, and the reads and writes of the store.\<close>

lemma Sprintf_limit: "Sprintf_2f MaxDailyWithdrawalLimit = ''5000.00''"
  by (simp add: Sprintf_2f_def round_half_even_def MaxDailyWithdrawalLimit_def nat_dec.simps digit_def)

lemma Sprintf_floor: "Sprintf_2f (- OverdraftLimit) = ''1000.00''"
  by (simp add: Sprintf_2f_def round_half_even_def OverdraftLimit_def nat_dec.simps digit_def)

lemma cells_map_put: "cells (map_put s r k a) = (cells s)(r := (cells s r)(k \<mapsto> a))"
  by (simp add: map_put_def)

lemma nxt_map_put: "nxt (map_put s r k a) = nxt s"
  by (simp add: map_put_def)

lemma map_get_map_put:
  "map_get (map_put s r k a) r' k' = (if r' = r \<and> k' = k then a else map_get s r' k')"
  by (simp add: map_get_def map_put_def lookup_def)

lemma processCredit_eq:
  "processCredit tx a r s =
     (tx\<lparr>Status := ''completed''\<rparr>, r,
      map_put s r (AccountID tx)
        (a\<lparr>Balance := Balance a + Amount tx, DailyCredits := DailyCredits a + Amount tx\<rparr>))"
  by (simp add: processCredit_def Let_def)

lemma processDebit_eq:
  "processDebit tx a r s =
     (if MaxDailyWithdrawalLimit < DailyDebits a + Amount tx then
        (tx\<lparr>Status := ''rejected'', ProcessingMessage := ''Exceeds daily withdrawal limit of $5000.00''\<rparr>, r, s)
      else if Balance a - Amount tx < OverdraftLimit then
        (tx\<lparr>Status := ''rejected'', ProcessingMessage := ''Would exceed overdraft limit of $1000.00''\<rparr>, r, s)
      else if Balance a - Amount tx < 0 then
        (tx\<lparr>ProcessingMessage := ''Account in overdraft'', Status := ''completed''\<rparr>, r,
         map_put s r (AccountID tx)
           (a\<lparr>Balance := Balance a - Amount tx, DailyDebits := DailyDebits a + Amount tx,
              OverdraftCount := OverdraftCount a + 1\<rparr>))
      else
        (tx\<lparr>Status := ''completed''\<rparr>, r,
         map_put s r (AccountID tx)
           (a\<lparr>Balance := Balance a - Amount tx, DailyDebits := DailyDebits a + Amount tx\<rparr>)))"
  by (simp add: processDebit_def Let_def Sprintf_limit Sprintf_floor)

lemma processTransfer_eq:
  "processTransfer tx r s =
     (let src = map_get s r (AccountID tx); dst = map_get s r (DestinationAccountID tx) in
      if Balance src - Amount tx < OverdraftLimit then
        (tx\<lparr>Status := ''rejected'', ProcessingMessage := ''Would exceed overdraft limit of $1000.00''\<rparr>, r, s)
      else
        (tx\<lparr>ProcessingMessage := (if Balance src - Amount tx < 0 then ''Source account in overdraft'' else ProcessingMessage tx),
            Status := ''completed''\<rparr>, r,
         map_put (map_put s r (AccountID tx)
           (src\<lparr>Balance := Balance src - Amount tx, DailyDebits := DailyDebits src + Amount tx,
              OverdraftCount := (if Balance src - Amount tx < 0 then OverdraftCount src + 1 else OverdraftCount src)\<rparr>))
           r (DestinationAccountID tx)
           (dst\<lparr>Balance := Balance dst + Amount tx, DailyCredits := DailyCredits dst + Amount tx\<rparr>)))"
  by (simp add: processTransfer_def Let_def Sprintf_floor)

text \<open>What one handler call leaves alone: the reference, the allocation pointer and every other map.\<close>

lemma processCredit_frame:
  "processCredit tx a r s = (tx', r', s') \<Longrightarrow>
     r' = r \<and> nxt s' = nxt s \<and> (\<forall>q. q \<noteq> r \<longrightarrow> cells s' q = cells s q)"
  by (auto simp: processCredit_eq cells_map_put nxt_map_put)

lemma processDebit_frame:
  "processDebit tx a r s = (tx', r', s') \<Longrightarrow>
     r' = r \<and> nxt s' = nxt s \<and> (\<forall>q. q \<noteq> r \<longrightarrow> cells s' q = cells s q)"
  by (auto simp: processDebit_eq cells_map_put nxt_map_put split: if_splits)

lemma processTransfer_frame:
  "processTransfer tx r s = (tx', r', s') \<Longrightarrow>
     r' = r \<and> nxt s' = nxt s \<and> (\<forall>q. q \<noteq> r \<longrightarrow> cells s' q = cells s q)"
  by (auto simp: processTransfer_eq Let_def cells_map_put nxt_map_put split: if_splits)

lemma applyTransaction_frame:
  "applyTransaction tx r s = (tx', r', s') \<Longrightarrow>
     r' = r \<and> nxt s' = nxt s \<and> (\<forall>q. q \<noteq> r \<longrightarrow> cells s' q = cells s q)"
  unfolding applyTransaction_def Let_def
  by (auto split: if_splits prod.splits
        dest!: processCredit_frame processDebit_frame processTransfer_frame
        simp: cells_map_put nxt_map_put)

lemma processLoop_frame:
  "processLoop txs r s = (txs', r', s') \<Longrightarrow>
     r' = r \<and> nxt s' = nxt s \<and> (\<forall>q. q \<noteq> r \<longrightarrow> cells s' q = cells s q)"
proof (induction txs arbitrary: s txs' r' s')
  case Nil
  then show ?case by simp
next
  case (Cons t ts)
  obtain t1 r1 s1 where a: "applyTransaction t r s = (t1, r1, s1)"
    by (cases "applyTransaction t r s") auto
  obtain ts2 r2 s2 where l: "processLoop ts r1 s1 = (ts2, r2, s2)"
    by (cases "processLoop ts r1 s1") auto
  from applyTransaction_frame [OF a]
  have f1: "r1 = r" "nxt s1 = nxt s" "\<forall>q. q \<noteq> r \<longrightarrow> cells s1 q = cells s q"
    by auto
  from l f1 have l': "processLoop ts r s1 = (ts2, r2, s2)"
    by simp
  from Cons.IH [OF l']
  have f2: "r2 = r" "nxt s2 = nxt s1" "\<forall>q. q \<noteq> r \<longrightarrow> cells s2 q = cells s1 q"
    by auto
  from Cons.prems a l have "r' = r2" "s' = s2" by auto
  with f1 f2 show ?case by simp
qed

lemma ProcessTransactions_frame:
  "ProcessTransactions transactions accounts s = ((processedAccounts, processedTransactions), s') \<Longrightarrow>
     processedAccounts = nxt s \<and> (\<forall>q. q < nxt s \<longrightarrow> cells s' q = cells s q)"
proof -
  assume p: "ProcessTransactions transactions accounts s = ((processedAccounts, processedTransactions), s')"
  let ?s1 = "s\<lparr>cells := (cells s)(nxt s := Map.empty), nxt := Suc (nxt s)\<rparr>"
  let ?s2 = "?s1\<lparr>cells := (cells ?s1)(nxt s := cells ?s1 (nxt s) ++ cells ?s1 accounts)\<rparr>"
  obtain ts r2 s3 where l: "processLoop transactions (nxt s) ?s2 = (ts, r2, s3)"
    by (cases "processLoop transactions (nxt s) ?s2") auto
  from p l have e: "processedAccounts = r2" "s' = s3"
    by (auto simp: ProcessTransactions_def make_map_def Let_def)
  from processLoop_frame [OF l]
  have "r2 = nxt s" "\<forall>q. q \<noteq> nxt s \<longrightarrow> cells s3 q = cells ?s2 q"
    by auto
  with e show ?thesis by auto
qed

section \<open>One iteration of the loop in closed form\<close>

lemma map_put_same: "map_put (map_put s r k a) r k b = map_put s r k b"
  by (simp add: map_put_def)

lemma applyTransaction_credit:
  "Type tx = ''credit'' \<Longrightarrow>
   applyTransaction tx r s =
     (tx\<lparr>Status := ''completed''\<rparr>, r,
      map_put s r (AccountID tx)
        ((map_get s r (AccountID tx))\<lparr>Balance := Balance (map_get s r (AccountID tx)) + Amount tx,
           DailyCredits := DailyCredits (map_get s r (AccountID tx)) + Amount tx,
           LastTransactionTime := Timestamp tx\<rparr>))"
  by (simp add: applyTransaction_def processCredit_eq Let_def map_get_map_put map_put_same)

lemma applyTransaction_debit:
  "Type tx = ''debit'' \<Longrightarrow>
   applyTransaction tx r s =
     (let a = map_get s r (AccountID tx) in
      if MaxDailyWithdrawalLimit < DailyDebits a + Amount tx then
        (tx\<lparr>Status := ''rejected'', ProcessingMessage := ''Exceeds daily withdrawal limit of $5000.00''\<rparr>, r, s)
      else if Balance a - Amount tx < OverdraftLimit then
        (tx\<lparr>Status := ''rejected'', ProcessingMessage := ''Would exceed overdraft limit of $1000.00''\<rparr>, r, s)
      else if Balance a - Amount tx < 0 then
        (tx\<lparr>ProcessingMessage := ''Account in overdraft'', Status := ''completed''\<rparr>, r,
         map_put s r (AccountID tx)
           (a\<lparr>Balance := Balance a - Amount tx, DailyDebits := DailyDebits a + Amount tx,
              OverdraftCount := OverdraftCount a + 1, LastTransactionTime := Timestamp tx\<rparr>))
      else
        (tx\<lparr>Status := ''completed''\<rparr>, r,
         map_put s r (AccountID tx)
           (a\<lparr>Balance := Balance a - Amount tx, DailyDebits := DailyDebits a + Amount tx,
              LastTransactionTime := Timestamp tx\<rparr>)))"
  by (simp add: applyTransaction_def processDebit_eq Let_def map_get_map_put map_put_same)

lemma applyTransaction_transfer:
  "Type tx = ''transfer'' \<Longrightarrow>
   applyTransaction tx r s =
     (let src = map_get s r (AccountID tx); dst = map_get s r (DestinationAccountID tx);
          src' = src\<lparr>Balance := Balance src - Amount tx, DailyDebits := DailyDebits src + Amount tx,
              OverdraftCount := (if Balance src - Amount tx < 0 then OverdraftCount src + 1 else OverdraftCount src)\<rparr>;
          dst' = dst\<lparr>Balance := Balance dst + Amount tx, DailyCredits := DailyCredits dst + Amount tx\<rparr>
      in
      if Balance src - Amount tx < OverdraftLimit then
        (tx\<lparr>Status := ''rejected'', ProcessingMessage := ''Would exceed overdraft limit of $1000.00''\<rparr>, r, s)
      else
        (tx\<lparr>ProcessingMessage := (if Balance src - Amount tx < 0 then ''Source account in overdraft'' else ProcessingMessage tx),
            Status := ''completed''\<rparr>, r,
         map_put (map_put (map_put s r (AccountID tx) src') r (DestinationAccountID tx) dst')
           r (AccountID tx)
           ((if DestinationAccountID tx = AccountID tx then dst' else src')\<lparr>LastTransactionTime := Timestamp tx\<rparr>)))"
  by (simp add: applyTransaction_def processTransfer_eq Let_def map_get_map_put)

lemma applyTransaction_other:
  "Type tx \<noteq> ''credit'' \<Longrightarrow> Type tx \<noteq> ''debit'' \<Longrightarrow> Type tx \<noteq> ''transfer'' \<Longrightarrow>
   applyTransaction tx r s =
     (tx, r,
      if Status tx = ''completed'' then
        map_put s r (AccountID tx) ((map_get s r (AccountID tx))\<lparr>LastTransactionTime := Timestamp tx\<rparr>)
      else s)"
  by (simp add: applyTransaction_def Let_def)

section \<open>The run as a sequence of iterations\<close>

lemma applyTransaction_ref: "fst (snd (applyTransaction tx r s)) = r"
  using applyTransaction_frame [of tx r s "fst (applyTransaction tx r s)"
    "fst (snd (applyTransaction tx r s))" "snd (snd (applyTransaction tx r s))"]
  by simp

lemma processLoop_ref: "fst (snd (processLoop txs r s)) = r"
  using processLoop_frame [of txs r s "fst (processLoop txs r s)"
    "fst (snd (processLoop txs r s))" "snd (snd (processLoop txs r s))"]
  by simp

lemma processLoop_Cons:
  "processLoop (t # ts) r s =
     (fst (applyTransaction t r s) # fst (processLoop ts r (snd (snd (applyTransaction t r s)))),
      r, snd (snd (processLoop ts r (snd (snd (applyTransaction t r s))))))"
  by (simp add: split_beta applyTransaction_ref processLoop_ref prod_eq_iff)

lemma ProcessTransactions_loop:
  "ProcessTransactions txs a s =
     ((nxt s, fst (processLoop txs (nxt s) (copied a s))),
      snd (snd (processLoop txs (nxt s) (copied a s))))"
  by (simp add: ProcessTransactions_def copied_def make_map_def Let_def split_beta processLoop_ref
      prod_eq_iff)

lemma processLoop_snoc:
  "processLoop (txs @ [t]) r s =
     (fst (processLoop txs r s) @ [fst (applyTransaction t r (snd (snd (processLoop txs r s))))],
      r, snd (snd (applyTransaction t r (snd (snd (processLoop txs r s))))))"
proof (induction txs arbitrary: s)
  case Nil
  show ?case
    by (simp add: processLoop_Cons del: processLoop.simps(2))
next
  case (Cons x xs)
  show ?case
    using Cons.IH [of "snd (snd (applyTransaction x r s))"]
    by (simp add: processLoop_Cons del: processLoop.simps(2))
qed

lemma processLoop_length: "length (fst (processLoop txs r s)) = length txs"
  by (induction txs arbitrary: s) (simp_all add: processLoop_Cons del: processLoop.simps(2))

lemma processLoop_take:
  "fst (processLoop (take n txs) r s) = take n (fst (processLoop txs r s))"
proof (induction txs arbitrary: n s)
  case Nil
  show ?case by simp
next
  case (Cons x xs)
  show ?case
  proof (cases n)
    case 0
    then show ?thesis by simp
  next
    case (Suc m)
    with Cons.IH [of m "snd (snd (applyTransaction x r s))"] show ?thesis
      by (simp add: processLoop_Cons del: processLoop.simps(2))
  qed
qed

lemma accountAt_storeAt: "accountAt n txs a s k = map_get (storeAt n txs a s) (nxt s) k"
  by (simp add: accountAt_def storeAt_def ProcessTransactions_loop)

lemma run_step:
  assumes "i < length txs"
  shows "stamped txs a s i = fst (applyTransaction (txs ! i) (nxt s) (storeAt i txs a s))"
    and "storeAt (Suc i) txs a s = snd (snd (applyTransaction (txs ! i) (nxt s) (storeAt i txs a s)))"
proof -
  have t: "take (Suc i) txs = take i txs @ [txs ! i]"
    using assms by (simp add: take_Suc_conv_app_nth)
  have l: "i < length (fst (processLoop txs (nxt s) (copied a s)))"
    using assms by (simp add: processLoop_length)
  have "stamped txs a s i = fst (processLoop txs (nxt s) (copied a s)) ! i"
    by (simp add: stamped_def ProcessTransactions_loop)
  also have "\<dots> = take (Suc i) (fst (processLoop txs (nxt s) (copied a s))) ! i"
    by simp
  also have "\<dots> = fst (processLoop (take i txs @ [txs ! i]) (nxt s) (copied a s)) ! i"
    using t processLoop_take [of "Suc i" txs "nxt s" "copied a s"] by simp
  also have "\<dots> = fst (applyTransaction (txs ! i) (nxt s) (storeAt i txs a s))"
    using assms
    by (simp add: processLoop_snoc processLoop_length nth_append storeAt_def
        ProcessTransactions_loop)
  finally show "stamped txs a s i = fst (applyTransaction (txs ! i) (nxt s) (storeAt i txs a s))" .
  show "storeAt (Suc i) txs a s = snd (snd (applyTransaction (txs ! i) (nxt s) (storeAt i txs a s)))"
    unfolding storeAt_def t
    by (simp add: ProcessTransactions_loop processLoop_snoc)
qed

lemma applyTransaction_cases:
  assumes "Type tx = ''credit'' \<Longrightarrow> P" "Type tx = ''debit'' \<Longrightarrow> P" "Type tx = ''transfer'' \<Longrightarrow> P"
    "\<lbrakk>Type tx \<noteq> ''credit''; Type tx \<noteq> ''debit''; Type tx \<noteq> ''transfer''\<rbrakk> \<Longrightarrow> P"
  shows P
  using assms by blast

lemma rejected_step:
  "Status (fst (applyTransaction tx r s)) = ''rejected'' \<Longrightarrow>
     snd (snd (applyTransaction tx r s)) = s"
proof (rule applyTransaction_cases [of tx])
  assume "Type tx = ''credit''"
  then show "Status (fst (applyTransaction tx r s)) = ''rejected'' \<Longrightarrow> ?thesis"
    by (simp add: applyTransaction_credit)
next
  assume "Type tx = ''debit''"
  then show "Status (fst (applyTransaction tx r s)) = ''rejected'' \<Longrightarrow> ?thesis"
    by (simp add: applyTransaction_debit Let_def split: if_splits)
next
  assume "Type tx = ''transfer''"
  then show "Status (fst (applyTransaction tx r s)) = ''rejected'' \<Longrightarrow> ?thesis"
    by (simp add: applyTransaction_transfer Let_def split: if_splits)
next
  assume "Type tx \<noteq> ''credit''" "Type tx \<noteq> ''debit''" "Type tx \<noteq> ''transfer''"
  then show "Status (fst (applyTransaction tx r s)) = ''rejected'' \<Longrightarrow> ?thesis"
    by (simp add: applyTransaction_other)
qed

lemma storeAt_0: "storeAt 0 txs a s = copied a s"
  by (simp add: storeAt_def ProcessTransactions_loop)

lemma map_get_copied: "a < nxt s \<Longrightarrow> map_get (copied a s) (nxt s) k = map_get s a k"
  by (simp add: copied_def make_map_def map_get_def)

lemma example_allocated: "0 < nxt exampleStore"
  by (simp add: exampleStore_def)

lemma map_get_example:
  "map_get exampleStore 0 ''A1'' = exampleAccount ''A1'' 100"
  "map_get exampleStore 0 ''A2'' = exampleAccount ''A2'' 50"
  by (simp_all add: exampleStore_def map_get_def lookup_def)

lemma ex_rejected:
  "Status (stamped [exampleTransaction ''T1'' ''A1'' [] 1200 ''debit'' 5] 0 exampleStore 0) = ''rejected''"
  by (simp add: run_step storeAt_0 applyTransaction_debit map_get_copied example_allocated map_get_example Let_def
      exampleTransaction_def exampleAccount_def MaxDailyWithdrawalLimit_def OverdraftLimit_def)




subsection \<open>Status, message and accounts after one iteration\<close>





lemma transfer_self:
  "Type tx = ''transfer'' \<Longrightarrow> DestinationAccountID tx = AccountID tx \<Longrightarrow>
   \<not> Balance (map_get s r (AccountID tx)) - Amount tx < OverdraftLimit \<Longrightarrow>
   map_get (snd (snd (applyTransaction tx r s))) r (AccountID tx) =
     (map_get s r (AccountID tx))
       \<lparr>Balance := Balance (map_get s r (AccountID tx)) + Amount tx,
        DailyCredits := DailyCredits (map_get s r (AccountID tx)) + Amount tx,
        LastTransactionTime := Timestamp tx\<rparr>"
  by (simp add: applyTransaction_transfer Let_def map_get_map_put)






subsection \<open>The overdraft floor and the accounting identity, one iteration and the loop\<close>







section \<open>The two loops of the detector\<close>

lemma scanTransaction_eq:
  "scanTransaction accounts t (anoms, w) =
     (anoms @
        (if Status t = ''completed'' then
           (if LargeTransactionThreshold \<le> Amount t then
              [\<lparr>TransactionID = TxID t, AnomalyAccountID = AccountID t,
                AnomalyTimestamp = Timestamp t, AnomalyType = ''large_transaction'',
                AnomalyDescription = ''Large transaction: $'' @ Sprintf_2f (Amount t),
                Severity = ''medium''\<rparr>]
            else []) @
           (if Balance (lookup accounts (AccountID t)) < 0 then [overdraftAnomaly accounts t]
            else [])
         else []),
      if Status t = ''completed'' \<and> Type t = ''debit'' then
        w(AccountID t \<mapsto> (case w (AccountID t) of None \<Rightarrow> [] | Some ws \<Rightarrow> ws) @ [t])
      else w)"
  by (simp add: scanTransaction_def Let_def overdraftAnomaly_def overdraftSeverity_def
      DetectorOverdraftLimit_def)

lemma scanLoop_overdraft:
  "filter (\<lambda>a. AnomalyType a = ''account_overdraft'') (fst (scanLoop accounts txs (anoms, w))) =
     filter (\<lambda>a. AnomalyType a = ''account_overdraft'') anoms @ overdraftAnomalies accounts txs"
proof (induction txs arbitrary: anoms w)
  case Nil
  show ?case by (simp add: overdraftAnomalies_def)
next
  case (Cons t ts)
  show ?case
    by (simp add: scanTransaction_eq Cons.IH overdraftAnomalies_def overdraftAnomaly_def)
qed




lemma second_loop_concat:
  "foldl (\<lambda>anomalies accountID.
       case w accountID of None \<Rightarrow> anomalies
       | Some withdrawals \<Rightarrow> anomalies @ rapidWithdrawals accountID withdrawals) anoms order =
   anoms @ concat (map (\<lambda>k. case w k of None \<Rightarrow> [] | Some ws \<Rightarrow> rapidWithdrawals k ws) order)"
  by (induction order arbitrary: anoms) (simp_all split: option.splits)

lemma DetectAnomalies_eq:
  "DetectAnomalies order txs accounts =
     fst (scanLoop accounts txs ([], Map.empty)) @
     concat (map (\<lambda>k. case groupedWithdrawals txs accounts k of None \<Rightarrow> []
                      | Some ws \<Rightarrow> rapidWithdrawals k ws) order)"
  by (simp add: DetectAnomalies_def groupedWithdrawals_def second_loop_concat split_beta)

lemma rapidScan_kind:
  "a \<in> set (rapidScan k ws i) \<Longrightarrow> AnomalyType a = ''rapid_withdrawals'' \<and> AnomalyAccountID a = k"
proof (induction k ws i rule: rapidScan.induct)
  case (1 accountID withdrawals i)
  then show ?case
    by (subst (asm) rapidScan.simps) (auto simp: Let_def split: if_splits)
qed


lemma rapidWithdrawals_kind:
  "a \<in> set (rapidWithdrawals k ws) \<Longrightarrow>
     AnomalyType a = ''rapid_withdrawals'' \<and> AnomalyAccountID a = k"
  using rapidScan_kind [of a k ws "RapidWithdrawalThreshold - 1"]
  by (simp add: rapidWithdrawals_def split: if_splits)


lemma second_loop_overdraft:
  "filter (\<lambda>a. AnomalyType a = ''account_overdraft'')
     (concat (map (\<lambda>k. case w k of None \<Rightarrow> [] | Some ws \<Rightarrow> rapidWithdrawals k ws) order)) = []"
  by (induction order) (auto simp: filter_empty_conv split: option.splits dest: rapidWithdrawals_kind)




lemma overdraftSeverity_boundaries:
  "overdraftSeverity (- 1 / 100) = ''low''" "overdraftSeverity (- 500) = ''low''"
  "overdraftSeverity (- 50001 / 100) = ''medium''" "overdraftSeverity (- 800) = ''medium''"
  "overdraftSeverity (- 80001 / 100) = ''high''"
  by (simp_all add: overdraftSeverity_def DetectorOverdraftLimit_def)

section \<open>The overdraft floor\<close>




section \<open>Transfers\<close>




section \<open>The daily withdrawal limit\<close>




section \<open>Debits\<close>



section \<open>When a transfer is rejected\<close>



section \<open>Rejection\<close>

text \<open>
  Claim C6. A transaction that the run stamps rejected changes nothing: the store when
  it has been applied is the store before it, so the source account and the destination
  account (balance, daily counters, overdraft count, last transaction time) are the
  same after it as before.
\<close>

theorem rejected_transaction_changes_no_account:
  "i < length transactions \<Longrightarrow> Status (stamped transactions accounts s i) = ''rejected'' \<Longrightarrow>
     storeAt (Suc i) transactions accounts s = storeAt i transactions accounts s \<and>
     accountAt (Suc i) transactions accounts s (AccountID (transactions ! i)) =
       accountAt i transactions accounts s (AccountID (transactions ! i)) \<and>
     accountAt (Suc i) transactions accounts s (DestinationAccountID (transactions ! i)) =
       accountAt i transactions accounts s (DestinationAccountID (transactions ! i))"
  using rejected_step [of "transactions ! i" "nxt s" "storeAt i transactions accounts s"]
  by (simp add: run_step accountAt_storeAt)

theorem rejected_transaction_changes_no_account_witness:
  "(0::nat) < length [exampleTransaction ''T1'' ''A1'' [] 1200 ''debit'' 5] \<and>
   Status (stamped [exampleTransaction ''T1'' ''A1'' [] 1200 ''debit'' 5] 0 exampleStore 0) = ''rejected'' \<and>
   accountAt (Suc 0) [exampleTransaction ''T1'' ''A1'' [] 1200 ''debit'' 5] 0 exampleStore ''A1'' = exampleAccount ''A1'' 100"
  using rejected_transaction_changes_no_account [of 0 "[exampleTransaction ''T1'' ''A1'' [] 1200 ''debit'' 5]" 0 exampleStore] ex_rejected
  by (simp add: accountAt_storeAt storeAt_0 map_get_copied example_allocated map_get_example Let_def exampleTransaction_def)

section \<open>The caller's map\<close>

text \<open>
  Claim C7. ProcessTransactions leaves the caller's account mapping as it was: the map
  object the caller passed (any reference allocated before the call) holds the same
  entries after the call, and the map returned is another object, so every write of the
  run went to the private copy.
\<close>

theorem ProcessTransactions_callers_map_unchanged:
  "accounts < nxt s \<Longrightarrow>
     cells (snd (ProcessTransactions transactions accounts s)) accounts = cells s accounts \<and>
     fst (fst (ProcessTransactions transactions accounts s)) \<noteq> accounts"
  using ProcessTransactions_frame
    [of transactions accounts s "fst (fst (ProcessTransactions transactions accounts s))"
      "snd (fst (ProcessTransactions transactions accounts s))"
      "snd (ProcessTransactions transactions accounts s)"]
  by simp

theorem ProcessTransactions_callers_map_unchanged_witness:
  "(0::nat) < nxt exampleStore \<and>
   cells (snd (ProcessTransactions [exampleTransaction ''T1'' ''A1'' [] 50 ''debit'' 5] 0
     exampleStore)) 0 = cells exampleStore 0 \<and>
   fst (fst (ProcessTransactions [exampleTransaction ''T1'' ''A1'' [] 50 ''debit'' 5] 0
     exampleStore)) \<noteq> 0"
  using ProcessTransactions_callers_map_unchanged
    [of 0 exampleStore "[exampleTransaction ''T1'' ''A1'' [] 50 ''debit'' 5]"]
  by (simp add: exampleStore_def)

section \<open>Overdraft anomalies\<close>

text \<open>
  Claim C8. The account_overdraft anomalies that DetectAnomalies returns are, in input
  order, one for each completed transaction whose source account has a negative balance
  in the account map given to the detector (the map after the run), so one per completed
  transaction on such an account, and none for any other transaction. Each carries the
  transaction's id, account and timestamp, and the severity by the depth of the
  overdraft: low from 0 down to half the floor (- 500 included), medium from there down
  to 0.8 times the floor (- 800 included), high below that.
\<close>

theorem overdraft_anomaly_per_completed_transaction:
  "filter (\<lambda>a. AnomalyType a = ''account_overdraft'')
     (DetectAnomalies order transactions accounts) = overdraftAnomalies accounts transactions"
  using scanLoop_overdraft [of accounts transactions "[]" Map.empty]
  by (simp add: DetectAnomalies_eq second_loop_overdraft)

theorem overdraft_anomaly_per_completed_transaction_witness:
  "map (\<lambda>a. (TransactionID a, Severity a))
     (filter (\<lambda>a. AnomalyType a = ''account_overdraft'')
        (DetectAnomalies [''A1''] fourWithdrawals [''A1'' \<mapsto> exampleAccount ''A1'' (- 500)])) =
   [(''W1'', ''low''), (''W2'', ''low''), (''W3'', ''low''), (''W4'', ''low'')]"
  using overdraft_anomaly_per_completed_transaction
    [of "[''A1'']" fourWithdrawals "[''A1'' \<mapsto> exampleAccount ''A1'' (- 500)]"]
  by (simp add: overdraftAnomalies_def overdraftAnomaly_def fourWithdrawals_def
      exampleWithdrawal_def lookup_def exampleAccount_def overdraftSeverity_def
      DetectorOverdraftLimit_def)

section \<open>Rapid withdrawals\<close>



section \<open>The accounting identity\<close>



end
